theory Spec2Isabelle
  imports Main
begin

section \<open>The token-request background script (app/src/script.js)\<close>

text \<open>
  The script builds the application state of the token-request app from the event log of
  the contract. It is asynchronous JavaScript; here every external call is a field of an
  environment record that gives the call's outcome, a rejected promise or a thrown
  exception is the \<open>Inl\<close> of a sum, \<open>undefined\<close> is \<open>None\<close>, and console output and
  calls of the metadata resolver are collected in a list of effects.
\<close>

subsection \<open>JavaScript values\<close>

datatype jsval = JUndefined | JNull | JBool bool | JNum int | JStr string

text \<open>Truthiness, as \<open>||\<close> tests it (numbers are integers here, so there is no NaN).\<close>

fun truthy :: "jsval \<Rightarrow> bool" where
  "truthy JUndefined = False"
| "truthy JNull = False"
| "truthy (JBool b) = b"
| "truthy (JNum n) = (n \<noteq> 0)"
| "truthy (JStr s) = (s \<noteq> [])"

definition js_or :: "jsval \<Rightarrow> jsval \<Rightarrow> jsval" where
  "js_or a b = (if truthy a then a else b)"

datatype js_error = TypeError | CallError string

datatype effect =
    ConsoleError_update string
  | ConsoleError_initializing js_error
  | ConsoleLog js_error
  | Call_getTokenData string
  | Call_indentify jsval

type_synonym 'a result = "effect list \<times> (js_error + 'a)"

subsection \<open>Data model\<close>

type_synonym address = string

datatype requestStatus = PENDING | APPROVED | WITHDRAWN

record token_data =
  decimals :: jsval
  name :: jsval
  symbol :: jsval

record token = token_data +
  address :: address

record request =
  requestId :: string
  requesterAddress :: address
  depositToken :: address
  depositDecimals :: jsval
  depositName :: jsval
  depositSymbol :: jsval
  depositAmount :: string
  requestToken :: address
  requestDecimals :: jsval
  requestName :: jsval
  requestSymbol :: jsval
  requestAmount :: string
  requestTokenId :: string
  reference :: string
  status :: requestStatus
  date :: int

text \<open>A field of the state that is absent (or \<open>undefined\<close>) is \<open>None\<close>.\<close>

record state =
  account :: "string option"
  isSyncing :: "bool option"
  orgTokens :: "token list option"
  acceptedTokens :: "token list option"
  requests :: "request list option"

text \<open>
  The first three event names are the symbols \<open>events.ACCOUNTS_TRIGGER\<close>,
  \<open>events.SYNC_STATUS_SYNCING\<close> and \<open>events.SYNC_STATUS_SYNCED\<close> of the Aragon API;
  a contract event carries its name as a string.
\<close>

datatype event_name =
    ACCOUNTS_TRIGGER
  | SYNC_STATUS_SYNCING
  | SYNC_STATUS_SYNCED
  | ContractEvent string

record returnValues =
  rv_account :: "string option"
  rv_requestId :: string
  rv_requesterAddress :: address
  rv_depositToken :: address
  rv_depositAmount :: string
  rv_requestToken :: address
  rv_requestAmount :: string
  rv_requestTokenId :: string
  rv_reference :: string

record store_event =
  event :: event_name
  returnValues :: returnValues
  blockNumber :: nat

record block =
  timestamp :: int

record settings =
  network_type :: string

text \<open>
  The external call service: the three ERC20 getters of \<open>lib/token-utils\<close>, the static
  fallback table, \<open>token()\<close> of a token manager contract and \<open>web3Eth('getBlock', n)\<close>
  (which resolves to \<open>null\<close> for an unknown block).
\<close>

record env =
  getTokenDecimals :: "address \<Rightarrow> js_error + jsval"
  getTokenName :: "address \<Rightarrow> js_error + jsval"
  getTokenSymbol :: "address \<Rightarrow> js_error + jsval"
  fallback_table :: "address \<times> string \<Rightarrow> (string \<Rightarrow> jsval) option"
  manager_token :: "address \<Rightarrow> js_error + address"
  getBlock :: "nat \<Rightarrow> js_error + block option"

text \<open>
  Modelled from the spec: the constant \<open>ETHER_TOKEN_FAKE_ADDRESS\<close> is imported from
  \<open>lib/token-utils\<close>, which is not among the sources; it is the sentinel address of the
  native asset. No proof below depends on its value.
\<close>

definition ETHER_TOKEN_FAKE_ADDRESS :: address where
  "ETHER_TOKEN_FAKE_ADDRESS = ''0x0000000000000000000000000000000000000000''"

definition ETHER_DATA :: token_data where
  "ETHER_DATA = \<lparr>decimals = JNum 18, name = JStr ''Ether'', symbol = JStr ''ETH''\<rparr>"

text \<open>
  Modelled from the spec: \<open>tokenDataFallback\<close> is imported from \<open>lib/token-utils\<close>, which
  is not among the sources. It reads one field of the entry of the static fallback table
  keyed by token address and network type, and has nothing to return (\<open>null\<close>) when the
  table has no entry.
\<close>

definition tokenDataFallback ::
    "env \<Rightarrow> address \<Rightarrow> string \<Rightarrow> string \<Rightarrow> jsval" where
  "tokenDataFallback e tokenAddress fieldName networkType =
     (case fallback_table e (tokenAddress, networkType) of
        None \<Rightarrow> JNull
      | Some entry \<Rightarrow> entry fieldName)"

subsection \<open>Helpers\<close>

definition loadTokenName :: "env \<Rightarrow> address \<Rightarrow> settings \<Rightarrow> jsval" where
  "loadTokenName e tokenAddress s =
     (let fallback = js_or (tokenDataFallback e tokenAddress ''name'' (network_type s)) (JStr '''')
      in case getTokenName e tokenAddress of
           Inr v \<Rightarrow> js_or v fallback
         | Inl err \<Rightarrow> fallback)"

definition loadTokenSymbol :: "env \<Rightarrow> address \<Rightarrow> settings \<Rightarrow> jsval" where
  "loadTokenSymbol e tokenAddress s =
     (let fallback = js_or (tokenDataFallback e tokenAddress ''symbol'' (network_type s)) (JStr '''')
      in case getTokenSymbol e tokenAddress of
           Inr v \<Rightarrow> js_or v fallback
         | Inl err \<Rightarrow> fallback)"

definition loadTokenDecimals :: "env \<Rightarrow> address \<Rightarrow> settings \<Rightarrow> jsval" where
  "loadTokenDecimals e tokenAddress s =
     (let fallback = js_or (tokenDataFallback e tokenAddress ''decimals'' (network_type s)) (JStr ''0'')
      in case getTokenDecimals e tokenAddress of
           Inr v \<Rightarrow> js_or v fallback
         | Inl err \<Rightarrow> fallback)"

text \<open>The call itself is recorded, so that one can say which addresses were resolved.\<close>

definition getTokenData :: "env \<Rightarrow> address \<Rightarrow> settings \<Rightarrow> effect list \<times> token" where
  "getTokenData e tokenAddress s =
     ([Call_getTokenData tokenAddress],
      \<lparr>decimals = loadTokenDecimals e tokenAddress s,
       name = loadTokenName e tokenAddress s,
       symbol = loadTokenSymbol e tokenAddress s,
       address = tokenAddress\<rparr>)"

text \<open>\<open>Array.prototype.findIndex\<close>; the result \<open>-1\<close> is \<open>None\<close>.\<close>

fun findIndex :: "('a \<Rightarrow> bool) \<Rightarrow> 'a list \<Rightarrow> nat option" where
  "findIndex P [] = None"
| "findIndex P (x # xs) = (if P x then Some 0 else map_option Suc (findIndex P xs))"

text \<open>
  \<open>requests.findIndex\<close> throws a TypeError when \<open>requests\<close> is \<open>undefined\<close>. The branch
  that logs the error has no \<open>return\<close>, so the function returns \<open>undefined\<close> there.
\<close>

definition updateRequestStatus ::
    "request list option \<Rightarrow> string \<Rightarrow> requestStatus \<Rightarrow> request list option result" where
  "updateRequestStatus reqs rid nextStatus =
     (case reqs of
        None \<Rightarrow> ([], Inl TypeError)
      | Some rs \<Rightarrow>
          (case findIndex (\<lambda>r. requestId r = rid) rs of
             Some requestIndex \<Rightarrow>
               ([], Inr (Some (rs[requestIndex := (rs ! requestIndex)\<lparr>status := nextStatus\<rparr>])))
           | None \<Rightarrow> ([ConsoleError_update rid], Inr None)))"

text \<open>
  JavaScript numbers are IEEE doubles. An integer stands for the finite number nearest to
  it (ties to the even mantissa), which \<open>to_double\<close> computes; every integer below
  \<open>2 ^ 53\<close> in magnitude is a number itself.
\<close>

fun binary_digits :: "nat \<Rightarrow> nat" where
  "binary_digits n = (if n = 0 then 0 else Suc (binary_digits (n div 2)))"

fun decimal_digits :: "nat \<Rightarrow> nat" where
  "decimal_digits n = (if n = 0 then 0 else Suc (decimal_digits (n div 10)))"

declare binary_digits.simps [simp del] decimal_digits.simps [simp del]

definition to_double :: "int \<Rightarrow> int" where
  "to_double x =
     (if \<bar>x\<bar> < 2 ^ 53 then x
      else (let n = nat \<bar>x\<bar>;
                e = binary_digits n - 53;
                q = n div 2 ^ e;
                r = n mod 2 ^ e;
                h = 2 ^ (e - 1);
                q' = (if h < r \<or> (r = h \<and> odd q) then q + 1 else q)
            in sgn x * int (q' * 2 ^ e)))"

text \<open>
  \<open>parseInt(d, 10)\<close> for an integer-valued number \<open>d\<close> parses the string of \<open>d\<close>.
  Below \<open>10 ^ 21\<close> that string is the decimal numeral of \<open>d\<close>. From \<open>10 ^ 21\<close> on it is
  the shortest decimal that reads back as \<open>d\<close>, in exponent notation, and \<open>parseInt\<close>
  stops after its first digit: the first digit of \<open>d\<close>, or the next one when that digit
  followed by zeros already reads back as \<open>d\<close>.
\<close>

definition first_digit :: "nat \<Rightarrow> nat" where
  "first_digit n =
     (let j = decimal_digits n - 1;
          lead = n div 10 ^ j
      in if to_double (int ((lead + 1) * 10 ^ j)) = int n
         then (if lead = 9 then 1 else lead + 1)
         else lead)"

definition parseInt :: "int \<Rightarrow> int" where
  "parseInt d = (if \<bar>d\<bar> < 10 ^ 21 then d else sgn d * int (first_digit (nat \<bar>d\<bar>)))"

text \<open>
  \<open>parseInt(date, 10) * 1000\<close>, for the block timestamp, a number of seconds; the
  product is rounded to a double again.
\<close>

definition marshallDate :: "int \<Rightarrow> int" where
  "marshallDate d = to_double (parseInt (to_double d) * 1000)"

subsection \<open>Event handlers\<close>

definition getAcceptedTokens :: "env \<Rightarrow> address list \<Rightarrow> settings \<Rightarrow> effect list \<times> token list" where
  "getAcceptedTokens e tokens s =
     (let promises = map (\<lambda>tokenAddress. getTokenData e tokenAddress s)
                         (filter (\<lambda>t. t \<noteq> ETHER_TOKEN_FAKE_ADDRESS) tokens)
      in (concat (map fst promises), map snd promises))"

text \<open>
  The loop over the token manager contracts; a failing \<open>token()\<close> call leaves it.
  The descriptor that \<open>getTokenData\<close> returns is an object, so the guard
  \<open>token &&\<close> always passes and \<open>app.indentify\<close> is called for every manager; the
  call is recorded with the symbol it is given.
\<close>

fun collectOrgTokens :: "env \<Rightarrow> settings \<Rightarrow> address list \<Rightarrow> token list result" where
  "collectOrgTokens e s [] = ([], Inr [])"
| "collectOrgTokens e s (tokenManagerContract # rest) =
     (case manager_token e tokenManagerContract of
        Inl err \<Rightarrow> ([], Inl err)
      | Inr minimeAddress \<Rightarrow>
          (let (fx, tok) = getTokenData e minimeAddress s;
               (fx', r) = collectOrgTokens e s rest
           in (fx @ [Call_indentify (symbol tok)] @ fx',
               case r of Inl err \<Rightarrow> Inl err | Inr toks \<Rightarrow> Inr (tok # toks))))"

definition empty_state :: state where
  "empty_state = \<lparr>account = None, isSyncing = None, orgTokens = None,
                  acceptedTokens = None, requests = None\<rparr>"

text \<open>The object spread \<open>{...state}\<close>: spreading \<open>undefined\<close> or \<open>null\<close> gives \<open>{}\<close>.\<close>

definition spread :: "state option \<Rightarrow> state" where
  "spread st = (case st of None \<Rightarrow> empty_state | Some s \<Rightarrow> s)"

text \<open>
  The whole body is inside \<open>try\<close>; the \<open>catch\<close> logs and returns nothing, so the seed is
  \<open>undefined\<close> then.
\<close>

definition initializeState ::
    "env \<Rightarrow> address list \<Rightarrow> address list \<Rightarrow> settings \<Rightarrow> state option
       \<Rightarrow> effect list \<times> state option" where
  "initializeState e tokenManagerContracts tokens s cachedState =
     (case collectOrgTokens e s tokenManagerContracts of
        (fx, Inl err) \<Rightarrow> (fx @ [ConsoleError_initializing err], None)
      | (fx, Inr orgToks) \<Rightarrow>
          (let (fx', accepted) = getAcceptedTokens e tokens s;
               accepted' =
                 (if ETHER_TOKEN_FAKE_ADDRESS \<in> set tokens
                  then \<lparr>decimals = decimals ETHER_DATA, name = name ETHER_DATA,
                        symbol = symbol ETHER_DATA, address = ETHER_TOKEN_FAKE_ADDRESS\<rparr> # accepted
                  else accepted)
           in (fx @ fx',
               Some ((spread cachedState)\<lparr>isSyncing := Some True, orgTokens := Some orgToks,
                                          acceptedTokens := Some accepted'\<rparr>))))"

definition updateConnectedAccount :: "state \<Rightarrow> returnValues \<Rightarrow> state option result" where
  "updateConnectedAccount st rv = ([], Inr (Some (st\<lparr>account := rv_account rv\<rparr>)))"

text \<open>
  The metadata of one side of a request: the constant \<open>ETHER_DATA\<close> for the sentinel
  address, the resolver otherwise.
\<close>

definition tokenDataOf :: "env \<Rightarrow> address \<Rightarrow> settings \<Rightarrow> effect list \<times> token_data" where
  "tokenDataOf e a s =
     (if a = ETHER_TOKEN_FAKE_ADDRESS then ([], ETHER_DATA)
      else (let (fx, tok) = getTokenData e a s in (fx, token_data.truncate tok)))"

text \<open>
  The body is inside \<open>try\<close>: a rejected \<open>getBlock\<close> call, or the destructuring of a
  \<open>null\<close> block, goes to the \<open>catch\<close>, which logs the error and returns nothing.
\<close>

definition newTokenRequest ::
    "state \<Rightarrow> returnValues \<Rightarrow> settings \<Rightarrow> nat \<Rightarrow> env \<Rightarrow> state option result" where
  "newTokenRequest st rv s blockNo e =
     (let reqs = (case requests st of None \<Rightarrow> [] | Some rs \<Rightarrow> rs);
          (fx, dep) = tokenDataOf e (rv_depositToken rv) s;
          (fx', req) = tokenDataOf e (rv_requestToken rv) s
      in case (case getBlock e blockNo of
                 Inl err \<Rightarrow> Inl err
               | Inr None \<Rightarrow> Inl TypeError
               | Inr (Some b) \<Rightarrow> Inr (timestamp b)) of
           Inl err \<Rightarrow> (fx @ fx' @ [ConsoleLog err], Inr None)
         | Inr ts \<Rightarrow>
             (fx @ fx',
              Inr (Some (st\<lparr>requests := Some (reqs @
                [\<lparr>requestId = rv_requestId rv,
                  requesterAddress = rv_requesterAddress rv,
                  depositToken = rv_depositToken rv,
                  depositDecimals = decimals dep,
                  depositName = name dep,
                  depositSymbol = symbol dep,
                  depositAmount = rv_depositAmount rv,
                  requestToken = rv_requestToken rv,
                  requestDecimals = decimals req,
                  requestName = name req,
                  requestSymbol = symbol req,
                  requestAmount = rv_requestAmount rv,
                  requestTokenId = rv_requestTokenId rv,
                  reference = rv_reference rv,
                  status = PENDING,
                  date = marshallDate ts\<rparr>])\<rparr>))))"

definition requestRefunded :: "state \<Rightarrow> returnValues \<Rightarrow> state option result" where
  "requestRefunded st rv =
     (let nextStatus = WITHDRAWN
      in case updateRequestStatus (requests st) (rv_requestId rv) nextStatus of
           (fx, Inl err) \<Rightarrow> (fx, Inl err)
         | (fx, Inr reqs) \<Rightarrow> (fx, Inr (Some (st\<lparr>requests := reqs\<rparr>))))"

definition requestFinalised :: "state \<Rightarrow> returnValues \<Rightarrow> state option result" where
  "requestFinalised st rv =
     (let nextStatus = APPROVED
      in case updateRequestStatus (requests st) (rv_requestId rv) nextStatus of
           (fx, Inl err) \<Rightarrow> (fx, Inl err)
         | (fx, Inr reqs) \<Rightarrow> (fx, Inr (Some (st\<lparr>requests := reqs\<rparr>))))"

subsection \<open>The reducer\<close>

text \<open>The function given to \<open>app.store\<close> in \<open>createStore\<close>.\<close>

definition reducer :: "env \<Rightarrow> settings \<Rightarrow> state option \<Rightarrow> store_event \<Rightarrow> state option result" where
  "reducer e s st ev =
     (let nextState = spread st
      in case event ev of
           ACCOUNTS_TRIGGER \<Rightarrow> updateConnectedAccount nextState (returnValues ev)
         | SYNC_STATUS_SYNCING \<Rightarrow> ([], Inr (Some (nextState\<lparr>isSyncing := Some True\<rparr>)))
         | SYNC_STATUS_SYNCED \<Rightarrow> ([], Inr (Some (nextState\<lparr>isSyncing := Some False\<rparr>)))
         | ContractEvent n \<Rightarrow>
             (if n = ''TokenRequestCreated''
                then newTokenRequest nextState (returnValues ev) s (blockNumber ev) e
              else if n = ''TokenRequestRefunded''
                then requestRefunded nextState (returnValues ev)
              else if n = ''TokenRequestFinalised''
                then requestFinalised nextState (returnValues ev)
              else ([], Inr st)))"

text \<open>
  The store applies the reducer to the events one at a time, in log order, each time with
  the state the previous application returned; a rejected application ends the replay.
\<close>

fun replay :: "env \<Rightarrow> settings \<Rightarrow> state option \<Rightarrow> store_event list \<Rightarrow> state option result" where
  "replay e s st [] = ([], Inr st)"
| "replay e s st (ev # evs) =
     (case reducer e s st ev of
        (fx, Inl err) \<Rightarrow> (fx, Inl err)
      | (fx, Inr st') \<Rightarrow> (let (fx', r) = replay e s st' evs in (fx @ fx', r)))"

subsection \<open>Notions used in the statements\<close>

text \<open>An external call that was rejected, or that returned a falsy value.\<close>

definition call_failed_or_empty :: "js_error + jsval \<Rightarrow> bool" where
  "call_failed_or_empty r = (case r of Inl err \<Rightarrow> True | Inr v \<Rightarrow> \<not> truthy v)"

text \<open>The request ids of a state, in order; an absent state or an absent list has none.\<close>

definition request_ids :: "state option \<Rightarrow> string list" where
  "request_ids st =
     (case st of None \<Rightarrow> []
      | Some s \<Rightarrow> (case requests s of None \<Rightarrow> [] | Some rs \<Rightarrow> map requestId rs))"

text \<open>The request ids carried by the creation events of a log, in order.\<close>

definition created_ids :: "store_event list \<Rightarrow> string list" where
  "created_ids evs =
     map (\<lambda>ev. rv_requestId (returnValues ev))
         (filter (\<lambda>ev. event ev = ContractEvent ''TokenRequestCreated'') evs)"

subsection \<open>Concrete inputs\<close>

text \<open>
  A small world on the network \<open>rinkeby\<close>: the token \<open>0xAAA\<close> answers \<open>symbol()\<close>, returns
  \<open>0\<close> for \<open>decimals()\<close>, fails \<open>name()\<close> and has an entry in the fallback table; every
  other token fails or returns the empty string and has no entry. The token manager
  \<open>0xM1\<close> manages \<open>0xAAA\<close>, the token manager \<open>0xM0\<close> reports the address of the
  native asset as its token, and \<open>token()\<close> fails for every other manager. Block \<open>0\<close>
  cannot be fetched.
\<close>

definition ex_settings :: settings where
  "ex_settings = \<lparr>network_type = ''rinkeby''\<rparr>"

definition ex_entry :: "string \<Rightarrow> jsval" where
  "ex_entry f =
     (if f = ''name'' then JStr ''Token A''
      else if f = ''symbol'' then JStr ''TKA''
      else if f = ''decimals'' then JStr ''18''
      else JUndefined)"

definition ex_env :: env where
  "ex_env =
     \<lparr>getTokenDecimals = (\<lambda>a. if a = ''0xAAA'' then Inr (JNum 0) else Inl (CallError ''revert'')),
      getTokenName = (\<lambda>a. Inl (CallError ''revert'')),
      getTokenSymbol = (\<lambda>a. if a = ''0xAAA'' then Inr (JStr ''AAA'') else Inr (JStr '''')),
      fallback_table = (\<lambda>k. if k = (''0xAAA'', ''rinkeby'') then Some ex_entry else None),
      manager_token = (\<lambda>m. if m = ''0xM1'' then Inr ''0xAAA''
                            else if m = ''0xM0'' then Inr ETHER_TOKEN_FAKE_ADDRESS
                            else Inl (CallError ''revert'')),
      getBlock = (\<lambda>n. if n = 0 then Inl (CallError ''no block'')
                       else Inr (Some \<lparr>timestamp = 1600000000 + int n\<rparr>))\<rparr>"

definition ex_returnValues :: "string \<Rightarrow> returnValues" where
  "ex_returnValues rid =
     \<lparr>rv_account = None, rv_requestId = rid, rv_requesterAddress = ''0xREQ'',
      rv_depositToken = ETHER_TOKEN_FAKE_ADDRESS, rv_depositAmount = ''100'',
      rv_requestToken = ''0xAAA'', rv_requestAmount = ''5'', rv_requestTokenId = ''0'',
      rv_reference = ''ref''\<rparr>"

definition ex_event :: "string \<Rightarrow> string \<Rightarrow> nat \<Rightarrow> store_event" where
  "ex_event n rid b =
     \<lparr>event = ContractEvent n, returnValues = ex_returnValues rid, blockNumber = b\<rparr>"

text \<open>The request that the creation event \<open>ex_event ''TokenRequestCreated'' rid 9\<close> appends.\<close>

definition ex_request :: "string \<Rightarrow> requestStatus \<Rightarrow> request" where
  "ex_request rid st =
     \<lparr>requestId = rid, requesterAddress = ''0xREQ'',
      depositToken = ETHER_TOKEN_FAKE_ADDRESS, depositDecimals = JNum 18,
      depositName = JStr ''Ether'', depositSymbol = JStr ''ETH'', depositAmount = ''100'',
      requestToken = ''0xAAA'', requestDecimals = JStr ''18'', requestName = JStr ''Token A'',
      requestSymbol = JStr ''AAA'', requestAmount = ''5'', requestTokenId = ''0'',
      reference = ''ref'', status = st, date = 1600000009000\<rparr>"

definition ex_token_A :: token where
  "ex_token_A = \<lparr>decimals = JStr ''18'', name = JStr ''Token A'', symbol = JStr ''AAA'',
                 address = ''0xAAA''\<rparr>"

definition ex_token_B :: token where
  "ex_token_B = \<lparr>decimals = JStr ''0'', name = JStr '''', symbol = JStr '''',
                 address = ''0xBBB''\<rparr>"

definition ex_token_ether :: token where
  "ex_token_ether = \<lparr>decimals = JNum 18, name = JStr ''Ether'', symbol = JStr ''ETH'',
                     address = ETHER_TOKEN_FAKE_ADDRESS\<rparr>"

text \<open>
  The seed that \<open>initializeState\<close> produces for the manager \<open>0xM1\<close> and the accepted
  tokens \<open>0xAAA\<close>, the native asset and \<open>0xBBB\<close>, from an empty cache. It has no
  \<open>requests\<close> field.
\<close>

definition ex_seed :: state where
  "ex_seed = \<lparr>account = None, isSyncing = Some True, orgTokens = Some [ex_token_A],
              acceptedTokens = Some [ex_token_ether, ex_token_A, ex_token_B],
              requests = None\<rparr>"

definition ex_state :: "request list \<Rightarrow> state" where
  "ex_state rs = ex_seed\<lparr>requests := Some rs\<rparr>"

lemmas ex_defs =
  ex_settings_def ex_entry_def ex_env_def ex_returnValues_def ex_event_def ex_request_def
  ex_token_A_def ex_token_B_def ex_token_ether_def ex_seed_def ex_state_def

lemmas script_defs =
  reducer_def newTokenRequest_def requestRefunded_def requestFinalised_def
  updateConnectedAccount_def updateRequestStatus_def tokenDataOf_def getTokenData_def
  getAcceptedTokens_def initializeState_def loadTokenName_def loadTokenSymbol_def
  loadTokenDecimals_def js_or_def tokenDataFallback_def marshallDate_def parseInt_def
  to_double_def spread_def
  empty_state_def ETHER_DATA_def ETHER_TOKEN_FAKE_ADDRESS_def token_data.truncate_def Let_def

section \<open>Properties\<close>

subsection \<open>Auxiliary facts\<close>

lemma findIndex_Some:
  "findIndex P xs = Some i \<Longrightarrow> i < length xs \<and> P (xs ! i) \<and> (\<forall>j<i. \<not> P (xs ! j))"
proof (induction xs arbitrary: i)
  case Nil
  then show ?case by simp
next
  case (Cons x xs)
  show ?case
  proof (cases "P x")
    case True
    with Cons.prems show ?thesis by simp
  next
    case False
    with Cons.prems obtain k where k: "findIndex P xs = Some k" "i = Suc k"
      by auto
    from Cons.IH[OF k(1)] False k(2) show ?thesis
      by (auto simp: nth_Cons split: nat.splits)
  qed
qed

lemma findIndex_None: "findIndex P xs = None \<longleftrightarrow> (\<forall>x\<in>set xs. \<not> P x)"
  by (induction xs) auto

lemma findIndex_found: "\<exists>x\<in>set xs. P x \<Longrightarrow> \<exists>i. findIndex P xs = Some i"
  using findIndex_None[of P xs] by (cases "findIndex P xs") auto

lemma reducer_transition:
  assumes "requests st = Some rs"
    and "findIndex (\<lambda>r. requestId r = rv_requestId (returnValues ev)) rs = Some i"
    and "(event ev = ContractEvent ''TokenRequestRefunded'' \<and> tgt = WITHDRAWN) \<or>
         (event ev = ContractEvent ''TokenRequestFinalised'' \<and> tgt = APPROVED)"
  shows "reducer e s (Some st) ev =
           ([], Inr (Some (st\<lparr>requests := Some (rs[i := (rs ! i)\<lparr>status := tgt\<rparr>])\<rparr>)))"
  using assms
  by (auto simp: reducer_def spread_def requestRefunded_def requestFinalised_def
        updateRequestStatus_def)

lemma request_status_update_same: "(r\<lparr>status := t\<rparr> = r) = (status r = t)"
  by (cases r) auto

lemma state_requests_update_same: "(st\<lparr>requests := x\<rparr> = st) = (requests st = x)"
  by (cases st) auto

lemma load_name:
  "loadTokenName e a s =
     (case getTokenName e a of
        Inr v \<Rightarrow> if truthy v then v
                 else js_or (tokenDataFallback e a ''name'' (network_type s)) (JStr '''')
      | Inl err \<Rightarrow> js_or (tokenDataFallback e a ''name'' (network_type s)) (JStr ''''))"
  by (simp add: loadTokenName_def js_or_def Let_def split: sum.splits)

lemma load_symbol:
  "loadTokenSymbol e a s =
     (case getTokenSymbol e a of
        Inr v \<Rightarrow> if truthy v then v
                 else js_or (tokenDataFallback e a ''symbol'' (network_type s)) (JStr '''')
      | Inl err \<Rightarrow> js_or (tokenDataFallback e a ''symbol'' (network_type s)) (JStr ''''))"
  by (simp add: loadTokenSymbol_def js_or_def Let_def split: sum.splits)

lemma load_decimals:
  "loadTokenDecimals e a s =
     (case getTokenDecimals e a of
        Inr v \<Rightarrow> if truthy v then v
                 else js_or (tokenDataFallback e a ''decimals'' (network_type s)) (JStr ''0'')
      | Inl err \<Rightarrow> js_or (tokenDataFallback e a ''decimals'' (network_type s)) (JStr ''0''))"
  by (simp add: loadTokenDecimals_def js_or_def Let_def split: sum.splits)

lemma fallback_or:
  "js_or (tokenDataFallback e a f n) d =
     (case fallback_table e (a, n) of
        None \<Rightarrow> d
      | Some entry \<Rightarrow> if truthy (entry f) then entry f else d)"
  by (simp add: js_or_def tokenDataFallback_def split: option.splits)

lemma getAcceptedTokens_eq:
  "getAcceptedTokens e tokens s =
     (map Call_getTokenData (filter (\<lambda>t. t \<noteq> ETHER_TOKEN_FAKE_ADDRESS) tokens),
      map (\<lambda>a. snd (getTokenData e a s)) (filter (\<lambda>t. t \<noteq> ETHER_TOKEN_FAKE_ADDRESS) tokens))"
proof -
  have "concat (map (\<lambda>a. fst (getTokenData e a s)) xs) = map Call_getTokenData xs" for xs
    by (induction xs) (simp_all add: getTokenData_def)
  then show ?thesis
    by (simp add: getAcceptedTokens_def Let_def comp_def)
qed

lemma collectOrgTokens_calls:
  "Call_getTokenData a \<in> set (fst (collectOrgTokens e s tms))
     \<Longrightarrow> \<exists>m\<in>set tms. manager_token e m = Inr a"
proof (induction tms)
  case Nil
  then show ?case by simp
next
  case (Cons m tms)
  show ?case
  proof (cases "manager_token e m")
    case (Inl err)
    with Cons.prems show ?thesis by simp
  next
    case (Inr b)
    with Cons.prems have "a = b \<or> Call_getTokenData a \<in> set (fst (collectOrgTokens e s tms))"
      by (auto simp: getTokenData_def split: prod.splits)
    then show ?thesis
    proof
      assume "a = b"
      with Inr show ?thesis by simp
    next
      assume "Call_getTokenData a \<in> set (fst (collectOrgTokens e s tms))"
      from Cons.IH[OF this] show ?thesis by auto
    qed
  qed
qed

lemma collectOrgTokens_ok:
  assumes "\<forall>m\<in>set tms. \<exists>a. manager_token e m = Inr a"
  shows "\<exists>fo toks. collectOrgTokens e s tms = (fo, Inr toks) \<and>
           (\<forall>a. Call_getTokenData a \<in> set fo \<longleftrightarrow> (\<exists>m\<in>set tms. manager_token e m = Inr a))"
  using assms
proof (induction tms)
  case Nil
  then show ?case by simp
next
  case (Cons m tms)
  from Cons.prems obtain b where b: "manager_token e m = Inr b" by auto
  from Cons.prems have "\<forall>m\<in>set tms. \<exists>a. manager_token e m = Inr a" by simp
  from Cons.IH[OF this] obtain fo toks where
    co: "collectOrgTokens e s tms = (fo, Inr toks)" and
    calls: "\<forall>a. Call_getTokenData a \<in> set fo \<longleftrightarrow> (\<exists>m\<in>set tms. manager_token e m = Inr a)"
    by blast
  let ?tok = "snd (getTokenData e b s)"
  let ?fo = "[Call_getTokenData b] @ [Call_indentify (symbol ?tok)] @ fo"
  have run: "collectOrgTokens e s (m # tms) = (?fo, Inr (?tok # toks))"
    using b co by (simp add: getTokenData_def)
  have "\<forall>a. Call_getTokenData a \<in> set ?fo \<longleftrightarrow>
          (\<exists>m'\<in>set (m # tms). manager_token e m' = Inr a)"
    using calls b by auto
  with run show ?case by blast
qed

lemma marshallDate_exact:
  assumes "\<bar>d\<bar> * 1000 < 2 ^ 53"
  shows "marshallDate d = d * 1000"
proof -
  from assms have a: "\<bar>d\<bar> < 2 ^ 53" and b: "\<bar>d\<bar> < 10 ^ 21" by simp_all
  have c: "\<bar>d * 1000\<bar> < 2 ^ 53" using assms by (simp add: abs_mult)
  show ?thesis
    unfolding marshallDate_def
    by (simp only: to_double_def[of d] a if_True parseInt_def b to_double_def[of "d * 1000"] c)
qed

lemma map_requestId_update:
  "i < length rs \<Longrightarrow> map requestId (rs[i := (rs ! i)\<lparr>status := t\<rparr>]) = map requestId rs"
  by (simp add: map_update list_update_same_conv)

lemma updateRequestStatus_ids:
  assumes "updateRequestStatus (Some rs) rid t = (fx, Inr r)"
  shows "r = None \<or> (\<exists>rs'. r = Some rs' \<and> map requestId rs' = map requestId rs)"
proof (cases "findIndex (\<lambda>r. requestId r = rid) rs")
  case None
  with assms show ?thesis by (simp add: updateRequestStatus_def)
next
  case (Some i)
  from findIndex_Some[OF Some] have "i < length rs" by simp
  with assms Some show ?thesis
    by (auto simp: updateRequestStatus_def map_requestId_update)
qed

text \<open>
  What one application of the reducer does to the list of request ids: it empties it,
  appends the id of a creation event, or leaves it as it is.
\<close>

lemma reducer_ids:
  assumes "reducer e s st ev = (fx, Inr st')"
  shows "request_ids st' = [] \<or>
         (if event ev = ContractEvent ''TokenRequestCreated''
          then request_ids st' = request_ids st @ [rv_requestId (returnValues ev)]
          else request_ids st' = request_ids st)"
proof (cases "event ev")
  case ACCOUNTS_TRIGGER
  with assms show ?thesis
    by (auto simp: reducer_def updateConnectedAccount_def request_ids_def spread_def empty_state_def
          split: option.splits)
next
  case SYNC_STATUS_SYNCING
  with assms show ?thesis
    by (auto simp: reducer_def request_ids_def spread_def empty_state_def split: option.splits)
next
  case SYNC_STATUS_SYNCED
  with assms show ?thesis
    by (auto simp: reducer_def request_ids_def spread_def empty_state_def split: option.splits)
next
  case (ContractEvent n)
  consider (c) "n = ''TokenRequestCreated''" | (r) "n = ''TokenRequestRefunded''"
    | (f) "n = ''TokenRequestFinalised''"
    | (u) "n \<noteq> ''TokenRequestCreated''" "n \<noteq> ''TokenRequestRefunded''"
          "n \<noteq> ''TokenRequestFinalised''"
    by blast
  then show ?thesis
  proof cases
    case c
    with assms ContractEvent show ?thesis
      by (auto simp: reducer_def newTokenRequest_def Let_def request_ids_def spread_def
            empty_state_def split: prod.splits sum.splits option.splits)
  next
    case r
    have "requests (spread st) = None \<or> (\<exists>rs. requests (spread st) = Some rs)" by auto
    then show ?thesis
    proof
      assume "requests (spread st) = None"
      with assms ContractEvent r show ?thesis
        by (simp add: reducer_def requestRefunded_def updateRequestStatus_def)
    next
      assume "\<exists>rs. requests (spread st) = Some rs"
      then obtain rs where rs: "requests (spread st) = Some rs" ..
      obtain fx1 r1 where
        u: "updateRequestStatus (Some rs) (rv_requestId (returnValues ev)) WITHDRAWN = (fx1, r1)"
        by (cases "updateRequestStatus (Some rs) (rv_requestId (returnValues ev)) WITHDRAWN")
      with assms ContractEvent r rs obtain q where
        q: "r1 = Inr q" "st' = Some ((spread st)\<lparr>requests := q\<rparr>)"
        by (cases r1) (auto simp: reducer_def requestRefunded_def)
      from updateRequestStatus_ids[OF u[unfolded q(1)]] q(2) rs ContractEvent r show ?thesis
        by (auto simp: request_ids_def spread_def empty_state_def split: option.splits)
    qed
  next
    case f
    have "requests (spread st) = None \<or> (\<exists>rs. requests (spread st) = Some rs)" by auto
    then show ?thesis
    proof
      assume "requests (spread st) = None"
      with assms ContractEvent f show ?thesis
        by (simp add: reducer_def requestFinalised_def updateRequestStatus_def)
    next
      assume "\<exists>rs. requests (spread st) = Some rs"
      then obtain rs where rs: "requests (spread st) = Some rs" ..
      obtain fx1 r1 where
        u: "updateRequestStatus (Some rs) (rv_requestId (returnValues ev)) APPROVED = (fx1, r1)"
        by (cases "updateRequestStatus (Some rs) (rv_requestId (returnValues ev)) APPROVED")
      with assms ContractEvent f rs obtain q where
        q: "r1 = Inr q" "st' = Some ((spread st)\<lparr>requests := q\<rparr>)"
        by (cases r1) (auto simp: reducer_def requestFinalised_def)
      from updateRequestStatus_ids[OF u[unfolded q(1)]] q(2) rs ContractEvent f show ?thesis
        by (auto simp: request_ids_def spread_def empty_state_def split: option.splits)
    qed
  next
    case u
    with assms ContractEvent show ?thesis
      by (auto simp: reducer_def)
  qed
qed

lemma reducer_keeps_distinct:
  assumes "reducer e s st ev = (fx, Inr st')"
    and "distinct (request_ids st @ created_ids (ev # evs))"
  shows "distinct (request_ids st' @ created_ids evs)"
proof -
  from reducer_ids[OF assms(1)] consider
      (wiped) "request_ids st' = []"
    | (created) "event ev = ContractEvent ''TokenRequestCreated''"
        "request_ids st' = request_ids st @ [rv_requestId (returnValues ev)]"
    | (kept) "event ev \<noteq> ContractEvent ''TokenRequestCreated''" "request_ids st' = request_ids st"
    by (auto split: if_splits)
  then show ?thesis
  proof cases
    case wiped
    with assms(2) show ?thesis by (auto simp: created_ids_def split: if_splits)
  next
    case created
    with assms(2) show ?thesis by (simp add: created_ids_def)
  next
    case kept
    with assms(2) show ?thesis by (simp add: created_ids_def)
  qed
qed

subsection \<open>Status transitions\<close>

text \<open>
  Claim C1, as stated, fails. \<open>updateRequestStatus\<close> never reads the current status of
  the request it finds. The creation event and the refund of request \<open>5\<close> lead from the
  seed to a state in which the request is WITHDRAWN; a later finalisation event for the
  same request makes it APPROVED, so the state is changed.
\<close>

theorem terminal_status_overwritten:
  "snd (replay ex_env ex_settings (Some ex_seed)
          [ex_event ''TokenRequestCreated'' ''5'' 9, ex_event ''TokenRequestRefunded'' ''5'' 9])
     = Inr (Some (ex_state [ex_request ''5'' WITHDRAWN])) \<and>
   reducer ex_env ex_settings (Some (ex_state [ex_request ''5'' WITHDRAWN]))
       (ex_event ''TokenRequestFinalised'' ''5'' 9)
     = ([], Inr (Some (ex_state [ex_request ''5'' APPROVED]))) \<and>
   ex_state [ex_request ''5'' APPROVED] \<noteq> ex_state [ex_request ''5'' WITHDRAWN]"
  by (simp add: script_defs ex_defs)

text \<open>
  Claim C1, amended: a refund (finalisation) event for a request id that occurs in
  \<open>requests\<close> sets the status of the first request with that id to WITHDRAWN (APPROVED),
  whatever its status was, and changes nothing else; the state is left unchanged exactly
  when that request already had the status the event sets; and no such event makes a
  request PENDING that was not PENDING before.
\<close>

theorem transition_overwrites_status:
  assumes "requests st = Some rs"
    and "rv_requestId (returnValues ev) \<in> requestId ` set rs"
    and "(event ev = ContractEvent ''TokenRequestRefunded'' \<and> tgt = WITHDRAWN) \<or>
         (event ev = ContractEvent ''TokenRequestFinalised'' \<and> tgt = APPROVED)"
  shows "\<exists>i. i < length rs \<and> requestId (rs ! i) = rv_requestId (returnValues ev) \<and>
           (\<forall>j<i. requestId (rs ! j) \<noteq> rv_requestId (returnValues ev)) \<and>
           reducer e s (Some st) ev =
             ([], Inr (Some (st\<lparr>requests := Some (rs[i := (rs ! i)\<lparr>status := tgt\<rparr>])\<rparr>))) \<and>
           (st\<lparr>requests := Some (rs[i := (rs ! i)\<lparr>status := tgt\<rparr>])\<rparr> = st
              \<longleftrightarrow> status (rs ! i) = tgt) \<and>
           (\<forall>j<length rs. status (rs[i := (rs ! i)\<lparr>status := tgt\<rparr>] ! j) = PENDING
              \<longrightarrow> status (rs ! j) = PENDING)"
proof -
  let ?P = "\<lambda>r. requestId r = rv_requestId (returnValues ev)"
  from assms(2) have "\<exists>x\<in>set rs. ?P x" by auto
  then have "\<exists>i. findIndex ?P rs = Some i"
    by (rule findIndex_found[where P = "?P" and xs = rs])
  then obtain i where i: "findIndex ?P rs = Some i" ..
  from findIndex_Some[OF i] have b: "i < length rs" and m: "?P (rs ! i)"
    and first: "\<forall>j<i. \<not> ?P (rs ! j)" by auto
  let ?rs' = "rs[i := (rs ! i)\<lparr>status := tgt\<rparr>]"
  have run: "reducer e s (Some st) ev = ([], Inr (Some (st\<lparr>requests := Some ?rs'\<rparr>)))"
    by (rule reducer_transition[OF assms(1) i assms(3)])
  have hit: "status (?rs' ! i) = tgt" using b by simp
  have "(?rs' = rs) = (rs ! i = (rs ! i)\<lparr>status := tgt\<rparr>)"
    using b by (rule list_update_same_conv)
  also have "\<dots> = (status (rs ! i) = tgt)"
    using request_status_update_same[where r = "rs ! i" and t = tgt] by auto
  finally have same: "(st\<lparr>requests := Some ?rs'\<rparr> = st) = (status (rs ! i) = tgt)"
    using assms(1) by (auto simp: state_requests_update_same)
  have tgt: "tgt \<noteq> PENDING" using assms(3) by auto
  have pend: "\<forall>j<length rs. status (?rs' ! j) = PENDING \<longrightarrow> status (rs ! j) = PENDING"
  proof (intro allI impI)
    fix j assume "j < length rs" and p: "status (?rs' ! j) = PENDING"
    show "status (rs ! j) = PENDING"
    proof (cases "j = i")
      case True
      with hit p tgt show ?thesis by simp
    next
      case False
      with p show ?thesis by simp
    qed
  qed
  from b m first run same pend show ?thesis by blast
qed

text \<open>Two requests carry the id \<open>5\<close>; the refund reaches the first of them only.\<close>

theorem transition_overwrites_status_witness:
  "reducer ex_env ex_settings
       (Some (ex_state [ex_request ''6'' PENDING, ex_request ''5'' APPROVED, ex_request ''5'' PENDING]))
       (ex_event ''TokenRequestRefunded'' ''5'' 9)
     = ([], Inr (Some (ex_state
          [ex_request ''6'' PENDING, ex_request ''5'' WITHDRAWN, ex_request ''5'' PENDING])))"
proof -
  let ?rs = "[ex_request ''6'' PENDING, ex_request ''5'' APPROVED, ex_request ''5'' PENDING]"
  let ?ev = "ex_event ''TokenRequestRefunded'' ''5'' 9"
  have h1: "requests (ex_state ?rs) = Some ?rs" by (simp add: ex_state_def)
  have h2: "rv_requestId (returnValues ?ev) \<in> requestId ` set ?rs"
    by (simp add: ex_event_def ex_returnValues_def ex_request_def)
  have h3: "(event ?ev = ContractEvent ''TokenRequestRefunded'' \<and> WITHDRAWN = WITHDRAWN) \<or>
            (event ?ev = ContractEvent ''TokenRequestFinalised'' \<and> WITHDRAWN = APPROVED)"
    by (simp add: ex_event_def)
  show ?thesis
    using transition_overwrites_status[OF h1 h2 h3, of ex_env ex_settings]
    by (simp add: script_defs ex_defs)
qed

text \<open>
  Claim C2: a refund or finalisation event for a request id that does not occur in
  \<open>requests\<close> should leave \<open>requests\<close> unchanged. The branch of \<open>updateRequestStatus\<close>
  that logs the error returns nothing, and the handler stores that \<open>undefined\<close> as the
  new \<open>requests\<close>: the request \<open>5\<close> is lost when request \<open>99\<close> is finalised.
\<close>

theorem missing_request_clears_requests:
  "reducer ex_env ex_settings (Some (ex_state [ex_request ''5'' PENDING]))
       (ex_event ''TokenRequestFinalised'' ''99'' 9)
     = ([ConsoleError_update ''99''], Inr (Some ex_seed)) \<and>
   requests ex_seed = None \<and>
   requests (ex_state [ex_request ''5'' PENDING]) = Some [ex_request ''5'' PENDING]"
  by (simp add: script_defs ex_defs)

subsection \<open>Creation\<close>

text \<open>
  Claim C3: when the enrichment of a creation event fails, the handler should return the
  state it was given. The \<open>catch\<close> of \<open>newTokenRequest\<close> logs the error and returns
  nothing: for a creation event whose block cannot be fetched the reducer returns
  \<open>undefined\<close>, not the state. No request is appended.
\<close>

theorem failed_creation_returns_undefined:
  "reducer ex_env ex_settings (Some (ex_state [ex_request ''5'' PENDING]))
       (ex_event ''TokenRequestCreated'' ''6'' 0)
     = ([Call_getTokenData ''0xAAA'', ConsoleLog (CallError ''no block'')], Inr None)"
  by (simp add: script_defs ex_defs)

subsection \<open>Containment of failures\<close>

text \<open>
  Claim C4: the reducer should never throw. The seed of \<open>initializeState\<close> has no
  \<open>requests\<close> field, and \<open>requestRefunded\<close> reads it without the default that
  \<open>newTokenRequest\<close> gives it: a refund event applied to the seed ends in the TypeError
  of \<open>requests.findIndex\<close>.
\<close>

theorem refund_on_seed_throws:
  "snd (initializeState ex_env [''0xM1''] [''0xAAA'', ETHER_TOKEN_FAKE_ADDRESS, ''0xBBB'']
          ex_settings None) = Some ex_seed \<and>
   reducer ex_env ex_settings (Some ex_seed) (ex_event ''TokenRequestRefunded'' ''1'' 9)
     = ([], Inl TypeError)"
  by (simp add: script_defs ex_defs)

subsection \<open>Dispatch\<close>

text \<open>
  Claim C5: for an event that is none of the six recognised kinds, the reducer returns
  the state it was given, whatever that state is (also \<open>undefined\<close>), with no effect and
  no error.
\<close>

theorem reducer_unknown_event_identity:
  assumes "event ev = ContractEvent n"
    and "n \<noteq> ''TokenRequestCreated''" and "n \<noteq> ''TokenRequestRefunded''"
    and "n \<noteq> ''TokenRequestFinalised''"
  shows "reducer e s st ev = ([], Inr st)"
  using assms by (simp add: reducer_def)

theorem reducer_unknown_event_identity_witness:
  "reducer ex_env ex_settings (Some ex_seed) (ex_event ''Transfer'' ''1'' 9)
     = ([], Inr (Some ex_seed))"
proof -
  have k: "event (ex_event ''Transfer'' ''1'' 9) = ContractEvent ''Transfer''"
    by (simp add: ex_event_def)
  show ?thesis
    by (rule reducer_unknown_event_identity[OF k]) simp_all
qed

subsection \<open>The metadata resolver\<close>

text \<open>
  Claim C6: \<open>getTokenData\<close> always returns a descriptor with the address it was given.
  Each of the three fields is decided on its own: a truthy value returned by the call is
  kept; when the call is rejected or returns a falsy value, the field is the value of the
  fallback table's entry for the token and the network, and it is the empty string (for
  the name and the symbol) or the string \<open>0\<close> (for the decimals) when the table has no
  entry (or the entry has nothing truthy for the field).
\<close>

theorem getTokenData_fallback_policy:
  assumes "getTokenData e a s = (fx, tok)"
  shows "address tok = a \<and>
    (\<forall>v. getTokenName e a = Inr v \<and> truthy v \<longrightarrow> name tok = v) \<and>
    (\<forall>v. getTokenSymbol e a = Inr v \<and> truthy v \<longrightarrow> symbol tok = v) \<and>
    (\<forall>v. getTokenDecimals e a = Inr v \<and> truthy v \<longrightarrow> decimals tok = v) \<and>
    (call_failed_or_empty (getTokenName e a) \<longrightarrow>
       name tok = (case fallback_table e (a, network_type s) of
                     None \<Rightarrow> JStr ''''
                   | Some entry \<Rightarrow> if truthy (entry ''name'') then entry ''name'' else JStr '''')) \<and>
    (call_failed_or_empty (getTokenSymbol e a) \<longrightarrow>
       symbol tok = (case fallback_table e (a, network_type s) of
                       None \<Rightarrow> JStr ''''
                     | Some entry \<Rightarrow> if truthy (entry ''symbol'') then entry ''symbol'' else JStr '''')) \<and>
    (call_failed_or_empty (getTokenDecimals e a) \<longrightarrow>
       decimals tok = (case fallback_table e (a, network_type s) of
                         None \<Rightarrow> JStr ''0''
                       | Some entry \<Rightarrow> if truthy (entry ''decimals'') then entry ''decimals''
                                        else JStr ''0''))"
proof -
  from assms have tok: "tok = \<lparr>decimals = loadTokenDecimals e a s, name = loadTokenName e a s,
      symbol = loadTokenSymbol e a s, address = a\<rparr>"
    by (simp add: getTokenData_def)
  have n: "name tok = loadTokenName e a s" and y: "symbol tok = loadTokenSymbol e a s"
    and d: "decimals tok = loadTokenDecimals e a s" and ad: "address tok = a"
    by (simp_all add: tok)
  have 1: "\<forall>v. getTokenName e a = Inr v \<and> truthy v \<longrightarrow> name tok = v"
    by (simp add: n load_name)
  have 2: "\<forall>v. getTokenSymbol e a = Inr v \<and> truthy v \<longrightarrow> symbol tok = v"
    by (simp add: y load_symbol)
  have 3: "\<forall>v. getTokenDecimals e a = Inr v \<and> truthy v \<longrightarrow> decimals tok = v"
    by (simp add: d load_decimals)
  have 4: "call_failed_or_empty (getTokenName e a) \<longrightarrow>
       name tok = (case fallback_table e (a, network_type s) of
                     None \<Rightarrow> JStr ''''
                   | Some entry \<Rightarrow> if truthy (entry ''name'') then entry ''name'' else JStr '''')"
    by (simp add: n load_name call_failed_or_empty_def fallback_or split: sum.splits)
  have 5: "call_failed_or_empty (getTokenSymbol e a) \<longrightarrow>
       symbol tok = (case fallback_table e (a, network_type s) of
                       None \<Rightarrow> JStr ''''
                     | Some entry \<Rightarrow> if truthy (entry ''symbol'') then entry ''symbol'' else JStr '''')"
    by (simp add: y load_symbol call_failed_or_empty_def fallback_or split: sum.splits)
  have 6: "call_failed_or_empty (getTokenDecimals e a) \<longrightarrow>
       decimals tok = (case fallback_table e (a, network_type s) of
                         None \<Rightarrow> JStr ''0''
                       | Some entry \<Rightarrow> if truthy (entry ''decimals'') then entry ''decimals''
                                        else JStr ''0'')"
    by (simp add: d load_decimals call_failed_or_empty_def fallback_or split: sum.splits)
  from ad 1 2 3 4 5 6 show ?thesis by blast
qed

text \<open>
  For \<open>0xAAA\<close> the symbol comes from the call, the name (call rejected) and the decimals
  (call returned \<open>0\<close>) from the table; for \<open>0xBBB\<close>, which has no entry, the defaults.
\<close>

theorem getTokenData_fallback_policy_witness:
  "getTokenData ex_env ''0xAAA'' ex_settings = ([Call_getTokenData ''0xAAA''], ex_token_A) \<and>
   getTokenName ex_env ''0xAAA'' = Inl (CallError ''revert'') \<and>
   getTokenDecimals ex_env ''0xAAA'' = Inr (JNum 0) \<and>
   fallback_table ex_env (''0xAAA'', ''rinkeby'') = Some ex_entry \<and>
   name ex_token_A = ex_entry ''name'' \<and>
   decimals ex_token_A = ex_entry ''decimals'' \<and>
   getTokenData ex_env ''0xBBB'' ex_settings = ([Call_getTokenData ''0xBBB''], ex_token_B) \<and>
   fallback_table ex_env (''0xBBB'', ''rinkeby'') = None \<and>
   name ex_token_B = JStr '''' \<and> symbol ex_token_B = JStr '''' \<and>
   decimals ex_token_B = JStr ''0''"
proof -
  have a: "getTokenData ex_env ''0xAAA'' ex_settings = ([Call_getTokenData ''0xAAA''], ex_token_A)"
    by (simp add: script_defs ex_defs)
  have b: "getTokenData ex_env ''0xBBB'' ex_settings = ([Call_getTokenData ''0xBBB''], ex_token_B)"
    by (simp add: script_defs ex_defs)
  show ?thesis
    using getTokenData_fallback_policy[OF a] getTokenData_fallback_policy[OF b] a b
    by (simp add: ex_defs call_failed_or_empty_def)
qed

subsection \<open>The bootstrap seed\<close>

text \<open>
  Claim C7, as stated, fails in two ways. When the \<open>token()\<close> call of a token manager is
  rejected, \<open>initializeState\<close> returns no seed at all, whatever the list of accepted
  tokens. And the resolver is called with the address of the native asset when a token
  manager reports that address as its token: only the accepted tokens are filtered.
\<close>

theorem initializeState_no_seed_or_ether_resolved:
  "initializeState ex_env [''0xM2''] [''0xAAA'', ETHER_TOKEN_FAKE_ADDRESS] ex_settings None
     = ([ConsoleError_initializing (CallError ''revert'')], None) \<and>
   fst (initializeState ex_env [''0xM0''] [''0xAAA'', ETHER_TOKEN_FAKE_ADDRESS] ex_settings None)
     = [Call_getTokenData ETHER_TOKEN_FAKE_ADDRESS, Call_indentify (JStr ''''),
        Call_getTokenData ''0xAAA'']"
  by (simp add: script_defs ex_defs)

text \<open>
  Claim C7, amended: when the \<open>token()\<close> call of every token manager succeeds and the
  list of accepted tokens contains the address of the native asset, at whatever position,
  \<open>initializeState\<close> returns a seed whose \<open>acceptedTokens\<close> start with the constant
  descriptor of the native asset (decimals 18, name Ether, symbol ETH), followed by the
  resolved descriptors of the other addresses in their order, none of which has the
  address of the native asset; and the resolver is called with the address of the native
  asset exactly when a token manager reports it as its token, so never for an accepted
  token.
\<close>

theorem initializeState_ether_first:
  assumes "ETHER_TOKEN_FAKE_ADDRESS \<in> set tokens"
    and "\<forall>m\<in>set tms. \<exists>a. manager_token e m = Inr a"
  shows "\<exists>fx seed rest.
           initializeState e tms tokens s cached = (fx, Some seed) \<and>
           acceptedTokens seed =
             Some (\<lparr>decimals = JNum 18, name = JStr ''Ether'', symbol = JStr ''ETH'',
                    address = ETHER_TOKEN_FAKE_ADDRESS\<rparr> # rest) \<and>
           rest = map (\<lambda>a. snd (getTokenData e a s))
                      (filter (\<lambda>t. t \<noteq> ETHER_TOKEN_FAKE_ADDRESS) tokens) \<and>
           (\<forall>t\<in>set rest. address t \<noteq> ETHER_TOKEN_FAKE_ADDRESS) \<and>
           (Call_getTokenData ETHER_TOKEN_FAKE_ADDRESS \<in> set fx \<longleftrightarrow>
              (\<exists>m\<in>set tms. manager_token e m = Inr ETHER_TOKEN_FAKE_ADDRESS))"
proof -
  let ?keep = "filter (\<lambda>t. t \<noteq> ETHER_TOKEN_FAKE_ADDRESS) tokens"
  let ?rest = "map (\<lambda>a. snd (getTokenData e a s)) ?keep"
  let ?ether = "\<lparr>decimals = JNum 18, name = JStr ''Ether'', symbol = JStr ''ETH'',
                  address = ETHER_TOKEN_FAKE_ADDRESS\<rparr>"
  from collectOrgTokens_ok[OF assms(2)] obtain fo toks where
    co: "collectOrgTokens e s tms = (fo, Inr toks)" and
    calls: "\<forall>a. Call_getTokenData a \<in> set fo \<longleftrightarrow> (\<exists>m\<in>set tms. manager_token e m = Inr a)"
    by blast
  let ?fx = "fo @ map Call_getTokenData ?keep"
  let ?seed = "(spread cached)\<lparr>isSyncing := Some True, orgTokens := Some toks,
                                acceptedTokens := Some (?ether # ?rest)\<rparr>"
  have run: "initializeState e tms tokens s cached = (?fx, Some ?seed)"
    using co assms(1) by (simp add: initializeState_def getAcceptedTokens_eq ETHER_DATA_def)
  have a1: "acceptedTokens ?seed = Some (?ether # ?rest)" by simp
  have a2: "\<forall>t\<in>set ?rest. address t \<noteq> ETHER_TOKEN_FAKE_ADDRESS"
    by (auto simp: getTokenData_def)
  have "Call_getTokenData ETHER_TOKEN_FAKE_ADDRESS \<notin> set (map Call_getTokenData ?keep)"
    by auto
  then have a3: "Call_getTokenData ETHER_TOKEN_FAKE_ADDRESS \<in> set ?fx \<longleftrightarrow>
              (\<exists>m\<in>set tms. manager_token e m = Inr ETHER_TOKEN_FAKE_ADDRESS)"
    using calls by simp
  from run a1 a2 a3 show ?thesis by blast
qed

text \<open>The native asset is second in the list given, and first in the seed.\<close>

theorem initializeState_ether_first_witness:
  "initializeState ex_env [''0xM1''] [''0xAAA'', ETHER_TOKEN_FAKE_ADDRESS, ''0xBBB'']
       ex_settings None
     = ([Call_getTokenData ''0xAAA'', Call_indentify (JStr ''AAA''),
         Call_getTokenData ''0xAAA'', Call_getTokenData ''0xBBB''], Some ex_seed) \<and>
   acceptedTokens ex_seed = Some [ex_token_ether, ex_token_A, ex_token_B] \<and>
   ex_token_ether = \<lparr>decimals = JNum 18, name = JStr ''Ether'', symbol = JStr ''ETH'',
                      address = ETHER_TOKEN_FAKE_ADDRESS\<rparr> \<and>
   manager_token ex_env ''0xM1'' = Inr ''0xAAA''"
proof -
  let ?tokens = "[''0xAAA'', ETHER_TOKEN_FAKE_ADDRESS, ''0xBBB'']"
  have h1: "ETHER_TOKEN_FAKE_ADDRESS \<in> set ?tokens" by simp
  have h2: "\<forall>m\<in>set [''0xM1'']. \<exists>a. manager_token ex_env m = Inr a"
    by (simp add: ex_env_def)
  have run: "initializeState ex_env [''0xM1''] ?tokens ex_settings None
     = ([Call_getTokenData ''0xAAA'', Call_indentify (JStr ''AAA''),
         Call_getTokenData ''0xAAA'', Call_getTokenData ''0xBBB''], Some ex_seed)"
    by (simp add: script_defs ex_defs)
  show ?thesis
    using initializeState_ether_first[OF h1 h2, of ex_settings None] run
    by (simp add: ex_seed_def ex_token_ether_def ex_env_def)
qed

subsection \<open>Uniqueness of request ids\<close>

text \<open>
  Claim C8, as stated, fails: \<open>newTokenRequest\<close> appends without looking for the id, so a
  log with two creation events for the same request id leads from the seed to a state
  with two requests of that id.
\<close>

theorem duplicate_creation_duplicates_requestId:
  "snd (replay ex_env ex_settings (Some ex_seed)
          [ex_event ''TokenRequestCreated'' ''1'' 9, ex_event ''TokenRequestCreated'' ''1'' 9])
     = Inr (Some (ex_state [ex_request ''1'' PENDING, ex_request ''1'' PENDING])) \<and>
   \<not> distinct (request_ids (Some (ex_state [ex_request ''1'' PENDING, ex_request ''1'' PENDING])))"
  by (simp add: script_defs ex_defs request_ids_def)

text \<open>
  Claim C8, amended: when the request ids of the starting state together with the ids of
  the creation events of the log are pairwise distinct, the request ids are pairwise
  distinct in the state that the replay of the log returns.
\<close>

theorem replay_distinct_requestIds:
  assumes "distinct (request_ids st @ created_ids evs)"
    and "replay e s st evs = (fx, Inr st')"
  shows "distinct (request_ids st')"
  using assms
proof (induction evs arbitrary: st fx)
  case Nil
  then show ?case by (simp add: created_ids_def)
next
  case (Cons ev evs)
  obtain f1 r1 where step: "reducer e s st ev = (f1, r1)" by (cases "reducer e s st ev")
  with Cons.prems(2) obtain mid where mid: "r1 = Inr mid"
    by (cases r1) auto
  obtain f2 r2 where rest: "replay e s mid evs = (f2, r2)" by (cases "replay e s mid evs")
  with Cons.prems(2) step mid have r2: "r2 = Inr st'" by simp
  have "distinct (request_ids mid @ created_ids evs)"
    using reducer_keeps_distinct[OF step[unfolded mid] Cons.prems(1)] .
  from Cons.IH[OF this rest[unfolded r2]] show ?case .
qed

theorem replay_distinct_requestIds_witness:
  "replay ex_env ex_settings (Some ex_seed)
       [ex_event ''TokenRequestCreated'' ''1'' 9, ex_event ''TokenRequestCreated'' ''2'' 9,
        ex_event ''TokenRequestRefunded'' ''1'' 9]
     = ([Call_getTokenData ''0xAAA'', Call_getTokenData ''0xAAA''],
        Inr (Some (ex_state [ex_request ''1'' WITHDRAWN, ex_request ''2'' PENDING]))) \<and>
   distinct (request_ids (Some (ex_state [ex_request ''1'' WITHDRAWN, ex_request ''2'' PENDING])))"
proof -
  let ?evs = "[ex_event ''TokenRequestCreated'' ''1'' 9, ex_event ''TokenRequestCreated'' ''2'' 9,
        ex_event ''TokenRequestRefunded'' ''1'' 9]"
  have h1: "distinct (request_ids (Some ex_seed) @ created_ids ?evs)"
    by (simp add: request_ids_def created_ids_def ex_defs)
  have h2: "replay ex_env ex_settings (Some ex_seed) ?evs
     = ([Call_getTokenData ''0xAAA'', Call_getTokenData ''0xAAA''],
        Inr (Some (ex_state [ex_request ''1'' WITHDRAWN, ex_request ''2'' PENDING])))"
    by (simp add: script_defs ex_defs)
  from replay_distinct_requestIds[OF h1 h2] h2 show ?thesis by simp
qed

subsection \<open>Frame of a transition\<close>

text \<open>
  Claim C9: a refund or finalisation event for a request id that occurs in \<open>requests\<close>
  returns the state with a \<open>requests\<close> list of the same length, in which the first request
  with that id is replaced, at its position, by the same record with the new status, and
  every other request is the one it was. No other field of the state changes.
\<close>

theorem transition_replaces_in_place:
  assumes "requests st = Some rs"
    and "rv_requestId (returnValues ev) \<in> requestId ` set rs"
    and "(event ev = ContractEvent ''TokenRequestRefunded'' \<and> tgt = WITHDRAWN) \<or>
         (event ev = ContractEvent ''TokenRequestFinalised'' \<and> tgt = APPROVED)"
  shows "\<exists>i rs'. i < length rs \<and> requestId (rs ! i) = rv_requestId (returnValues ev) \<and>
           reducer e s (Some st) ev = ([], Inr (Some (st\<lparr>requests := Some rs'\<rparr>))) \<and>
           length rs' = length rs \<and>
           rs' ! i = (rs ! i)\<lparr>status := tgt\<rparr> \<and>
           (\<forall>j<length rs. j \<noteq> i \<longrightarrow> rs' ! j = rs ! j)"
proof -
  let ?P = "\<lambda>r. requestId r = rv_requestId (returnValues ev)"
  from assms(2) have "\<exists>x\<in>set rs. ?P x" by auto
  then have "\<exists>i. findIndex ?P rs = Some i"
    by (rule findIndex_found[where P = "?P" and xs = rs])
  then obtain i where i: "findIndex ?P rs = Some i" ..
  from findIndex_Some[OF i] have b: "i < length rs" and m: "?P (rs ! i)" by auto
  let ?rs' = "rs[i := (rs ! i)\<lparr>status := tgt\<rparr>]"
  have "reducer e s (Some st) ev = ([], Inr (Some (st\<lparr>requests := Some ?rs'\<rparr>)))"
    by (rule reducer_transition[OF assms(1) i assms(3)])
  moreover have "length ?rs' = length rs" by simp
  moreover have "?rs' ! i = (rs ! i)\<lparr>status := tgt\<rparr>" using b by simp
  moreover have "\<forall>j<length rs. j \<noteq> i \<longrightarrow> ?rs' ! j = rs ! j" by simp
  ultimately show ?thesis using b m by blast
qed

theorem transition_replaces_in_place_witness:
  "reducer ex_env ex_settings
       (Some (ex_state [ex_request ''1'' PENDING, ex_request ''5'' PENDING, ex_request ''7'' APPROVED]))
       (ex_event ''TokenRequestFinalised'' ''5'' 9)
     = ([], Inr (Some (ex_state
          [ex_request ''1'' PENDING, ex_request ''5'' APPROVED, ex_request ''7'' APPROVED])))"
proof -
  let ?rs = "[ex_request ''1'' PENDING, ex_request ''5'' PENDING, ex_request ''7'' APPROVED]"
  let ?ev = "ex_event ''TokenRequestFinalised'' ''5'' 9"
  have h1: "requests (ex_state ?rs) = Some ?rs" by (simp add: ex_state_def)
  have h2: "rv_requestId (returnValues ?ev) \<in> requestId ` set ?rs"
    by (simp add: ex_event_def ex_returnValues_def ex_request_def)
  have h3: "(event ?ev = ContractEvent ''TokenRequestRefunded'' \<and> APPROVED = WITHDRAWN) \<or>
            (event ?ev = ContractEvent ''TokenRequestFinalised'' \<and> APPROVED = APPROVED)"
    by (simp add: ex_event_def)
  show ?thesis
    using transition_replaces_in_place[OF h1 h2 h3, of ex_env ex_settings]
    by (simp add: script_defs ex_defs)
qed

subsection \<open>Frame of the reducer\<close>

text \<open>
  A state that the reducer returns has the \<open>orgTokens\<close> and the \<open>acceptedTokens\<close> of the
  state it was given (for an \<open>undefined\<close> state: both absent).
\<close>

lemma reducer_keeps_token_lists:
  assumes "reducer e s st ev = (fx, Inr (Some st'))"
  shows "orgTokens st' = orgTokens (spread st) \<and>
         acceptedTokens st' = acceptedTokens (spread st)"
proof (cases "event ev")
  case ACCOUNTS_TRIGGER
  with assms show ?thesis by (auto simp: reducer_def updateConnectedAccount_def)
next
  case SYNC_STATUS_SYNCING
  with assms show ?thesis by (auto simp: reducer_def)
next
  case SYNC_STATUS_SYNCED
  with assms show ?thesis by (auto simp: reducer_def)
next
  case (ContractEvent n)
  consider (c) "n = ''TokenRequestCreated''" | (r) "n = ''TokenRequestRefunded''"
    | (f) "n = ''TokenRequestFinalised''"
    | (u) "n \<noteq> ''TokenRequestCreated''" "n \<noteq> ''TokenRequestRefunded''"
          "n \<noteq> ''TokenRequestFinalised''"
    by blast
  then show ?thesis
  proof cases
    case c
    with assms ContractEvent show ?thesis
      by (auto simp: reducer_def newTokenRequest_def Let_def
            split: prod.splits sum.splits option.splits)
  next
    case r
    with assms ContractEvent show ?thesis
      by (auto simp: reducer_def requestRefunded_def Let_def split: prod.splits sum.splits)
  next
    case f
    with assms ContractEvent show ?thesis
      by (auto simp: reducer_def requestFinalised_def Let_def split: prod.splits sum.splits)
  next
    case u
    with assms ContractEvent show ?thesis
      by (auto simp: reducer_def spread_def)
  qed
qed

text \<open>
  Claim C10: every event should leave \<open>orgTokens\<close> and \<open>acceptedTokens\<close> as they are.
  For a creation event whose block cannot be fetched the reducer returns \<open>undefined\<close>
  instead of a state (the \<open>catch\<close> of \<open>newTokenRequest\<close> returns nothing), so the two
  lists of the seed are gone: the state that the next event yields is built from the
  empty object and has neither.
\<close>

theorem failed_creation_loses_token_lists:
  "orgTokens ex_seed = Some [ex_token_A] \<and>
   acceptedTokens ex_seed = Some [ex_token_ether, ex_token_A, ex_token_B] \<and>
   reducer ex_env ex_settings (Some ex_seed) (ex_event ''TokenRequestCreated'' ''1'' 0)
     = ([Call_getTokenData ''0xAAA'', ConsoleLog (CallError ''no block'')], Inr None) \<and>
   snd (replay ex_env ex_settings (Some ex_seed)
          [ex_event ''TokenRequestCreated'' ''1'' 0,
           (ex_event '''' '''' 9)\<lparr>event := SYNC_STATUS_SYNCED\<rparr>])
     = Inr (Some (empty_state\<lparr>isSyncing := Some False\<rparr>)) \<and>
   orgTokens (empty_state\<lparr>isSyncing := Some False\<rparr>) = None \<and>
   acceptedTokens (empty_state\<lparr>isSyncing := Some False\<rparr>) = None"
  by (simp add: script_defs ex_defs)

end
